theory Spec2Isabelle
  imports Complex_Main "HOL-Library.Word" "HOL-Library.Signed_Division"
begin

section \<open>The filament extruder controller of Sources/HEPLAST_14_25.ino\<close>

text \<open>
  The sketch is written for the Arduino Uno or Nano (its header comment, lines 16 to 17),
  that is for the ATmega328P, where a C \<open>int\<close> has 16 bits and a \<open>long\<close> or
  \<open>unsigned long\<close> has 32 bits. An \<open>int\<close> is a \<open>16 word\<close> read through \<open>sint\<close>,
  \<open>millis()\<close> is a \<open>32 word\<close> read unsigned. Addition, subtraction and negation of words
  wrap around, as the AVR instructions do.
\<close>

type_synonym int16 = "16 word"
type_synonym long32 = "32 word"

text \<open>The level of a digital line: what \<open>digitalRead\<close> returns and \<open>digitalWrite\<close> takes.\<close>

datatype level = LOW | HIGH

subsection \<open>Configuration constants (lines 57 to 62)\<close>

text \<open>
  The two temperatures are \<open>const float\<close>; 20.0 and 27.0 are exact in binary floating
  point, so comparing them as reals is comparing them as floats.
\<close>

definition targetTemp :: real where
  "targetTemp = 20"

definition roomTempMock :: real where
  "roomTempMock = 27"

definition potZeroThreshold :: int16 where
  "potZeroThreshold = 20"

definition maxBreathBrightness :: int16 where
  "maxBreathBrightness = 50"

definition fadeDelay :: int16 where
  "fadeDelay = 80"

subsection \<open>The rescaling function\<close>

text \<open>
  The division of two \<open>long\<close> values in C: the quotient is truncated towards zero.
  The sketch divides by 1023 only, so the division by zero, undefined in C, is never
  reached.
\<close>

definition long_div :: "long32 \<Rightarrow> long32 \<Rightarrow> long32" where
  "long_div a b = word_of_int (sint a sdiv sint b)"

text \<open>
  Modelled from the spec: \<open>map\<close> is a function of the Arduino core library, which is not
  among the sources of this repository. Section 4.1 of the specification gives its body,
  \<open>out = (in - inMin) * (outMax - outMin) / (inMax - inMin) + outMin\<close>. The Arduino core
  declares it as \<open>long map(long, long, long, long, long)\<close>: all five parameters and the
  result are 32-bit integers, so the division is the integer division of C. Both calls of
  line 102 and line 103 pass five \<open>int\<close> arguments and so reach this one function.
\<close>

definition map_long :: "long32 \<Rightarrow> long32 \<Rightarrow> long32 \<Rightarrow> long32 \<Rightarrow> long32 \<Rightarrow> long32" where
  "map_long x in_min in_max out_min out_max =
     long_div ((x - in_min) * (out_max - out_min)) (in_max - in_min) + out_min"

subsection \<open>The input sampler (lines 101 to 104)\<close>

text \<open>
  What one pass of \<open>loop\<close> reads from the hardware: the potentiometer, the button, and
  the clock, which line 129 and line 134 read one after the other.
\<close>

record sample =
  pot_speed :: int16
  button_pin :: level
  millis_first :: long32
  millis_second :: long32

text \<open>
  Line 103, \<open>int motorPWM = map(potVal, 0, 1023, 0, 255)\<close>: the \<open>int\<close> is sign-extended
  to \<open>long\<close>, the result is cut back to 16 bits.
\<close>

definition motorPWM :: "int16 \<Rightarrow> int16" where
  "motorPWM potVal = ucast (map_long (scast potVal) 0 1023 0 255)"

text \<open>
  Line 102, \<open>float rpmTarget = map(potVal, 0, 1023, 0, 300) / 100.0\<close>: the \<open>long\<close> that
  \<open>map\<close> returns is divided by 100 as a floating-point number. \<open>rpmHundredths\<close> is the
  integer numerator, which has no rounding. \<open>rpmTarget\<close> is the quotient as a real
  number; the variable of the sketch holds the 32-bit float nearest to it, which is this
  quotient itself for few numerators only (0, 150 and 300 among them). Rounding keeps the
  order of the quotients, keeps quotients of different numerators apart (they differ by
  0.01 at least) and keeps the bounds 0 and 3, which are floats; so the properties below
  state of \<open>rpmTarget\<close> its order, its bounds and its value at such numerators, and state
  every other value on \<open>rpmHundredths\<close>.
\<close>

definition rpmHundredths :: "int16 \<Rightarrow> long32" where
  "rpmHundredths potVal = map_long (scast potVal) 0 1023 0 300"

definition rpmTarget :: "int16 \<Rightarrow> real" where
  "rpmTarget potVal = real_of_int (sint (rpmHundredths potVal)) / 100"

subsection \<open>The controller state\<close>

text \<open>
  The four global variables of lines 64 to 68, and what the sketch last wrote to each
  output: the value given to \<open>analogWrite\<close> for the two PWM pins, the level given to
  \<open>digitalWrite\<close> for the four digital pins, and the text last printed on the second
  line of the display. The first display line and the serial stream only format the
  sampled values and are not modelled.
\<close>

record controller =
  systemReady :: bool
  fadeValue :: int16
  fadeAmount :: int16
  prevFadeMillis :: long32
  LED_READY :: int16
  HEATER_LED :: level
  RELAY_PIN :: level
  MOTOR_ENB :: int16
  MOTOR_IN3 :: level
  MOTOR_IN4 :: level
  lcd_row1 :: string

text \<open>
  The state after \<open>setup\<close> (lines 73 to 98) and the initialisers of lines 65 to 68:
  every actuator is written off, the status LED pin has not been written and is low, and
  the display has been cleared.
\<close>

definition setup_state :: controller where
  "setup_state = \<lparr> systemReady = False, fadeValue = 0, fadeAmount = 2, prevFadeMillis = 0,
             LED_READY = 0, HEATER_LED = LOW, RELAY_PIN = LOW, MOTOR_ENB = 0,
             MOTOR_IN3 = LOW, MOTOR_IN4 = LOW, lcd_row1 = [] \<rparr>"

subsection \<open>The parts of \<open>loop\<close>\<close>

text \<open>
  Lines 129 to 135, the breathing animation: when at least \<open>fadeDelay\<close> milliseconds
  have passed since the last update, step the brightness, turn round at the bounds,
  write the brightness to the status LED and restart the timer.
\<close>

definition breathe :: "sample \<Rightarrow> controller \<Rightarrow> controller" where
  "breathe i s =
     (if scast fadeDelay \<le> millis_first i - prevFadeMillis s then
        let v = fadeValue s + fadeAmount s;
            a = (if v \<le>s 0 \<or> maxBreathBrightness \<le>s v then - fadeAmount s else fadeAmount s)
        in s\<lparr> fadeValue := v, fadeAmount := a, LED_READY := v,
               prevFadeMillis := millis_second i \<rparr>
      else s)"

text \<open>Lines 137 to 150, the arm check.\<close>

definition arm_check :: "int16 \<Rightarrow> level \<Rightarrow> controller \<Rightarrow> controller" where
  "arm_check potVal buttonState s =
     (if potVal <s potZeroThreshold then
        let s1 = s\<lparr> lcd_row1 := ''Press Button...  '' \<rparr>
        in if buttonState = LOW then
             s1\<lparr> systemReady := True, LED_READY := maxBreathBrightness,
                  lcd_row1 := ''System Active    '' \<rparr>
           else s1
      else s\<lparr> lcd_row1 := ''Set pot to zero  '' \<rparr>)"

text \<open>Lines 152 to 157, "Ensure everything is OFF".\<close>

definition all_off :: "controller \<Rightarrow> controller" where
  "all_off s = s\<lparr> RELAY_PIN := LOW, HEATER_LED := LOW, MOTOR_ENB := 0,
                   MOTOR_IN3 := LOW, MOTOR_IN4 := LOW \<rparr>"

text \<open>
  Lines 170 to 177, the heater control, with the two values it compares as parameters;
  \<open>loop\<close> passes the constants \<open>roomTempMock\<close> and \<open>targetTemp\<close>.
\<close>

definition heater_control :: "real \<Rightarrow> real \<Rightarrow> controller \<Rightarrow> controller" where
  "heater_control room target s =
     (if room < target then s\<lparr> RELAY_PIN := HIGH, HEATER_LED := HIGH \<rparr>
      else s\<lparr> RELAY_PIN := LOW, HEATER_LED := LOW \<rparr>)"

text \<open>Lines 160 to 177, the unlocked branch.\<close>

definition unlocked :: "int16 \<Rightarrow> controller \<Rightarrow> controller" where
  "unlocked pwm s =
     heater_control roomTempMock targetTemp
       (s\<lparr> LED_READY := maxBreathBrightness, lcd_row1 := ''System Active    '',
            MOTOR_IN3 := HIGH, MOTOR_IN4 := LOW, MOTOR_ENB := pwm \<rparr>)"

subsection \<open>One pass of \<open>loop\<close> (lines 100 to 181) and a run of passes\<close>

definition loop :: "sample \<Rightarrow> controller \<Rightarrow> controller" where
  "loop i s =
     (let potVal = pot_speed i;
          pwm = motorPWM potVal;
          buttonState = button_pin i
      in if \<not> systemReady s then all_off (arm_check potVal buttonState (breathe i s))
         else unlocked pwm s)"

fun run :: "controller \<Rightarrow> sample list \<Rightarrow> controller" where
  "run s [] = s"
| "run s (i # is) = run (loop i s) is"

text \<open>The actuator and indicator outputs of a state, as one tuple.\<close>

definition outputs :: "controller \<Rightarrow> int16 \<times> level \<times> level \<times> int16 \<times> level \<times> level \<times> string" where
  "outputs s = (LED_READY s, HEATER_LED s, RELAY_PIN s, MOTOR_ENB s, MOTOR_IN3 s,
                MOTOR_IN4 s, lcd_row1 s)"

subsection \<open>Counting the animation updates of a run\<close>

text \<open>
  The number of passes of a run on which the body of the \<open>if\<close> of line 129 is executed:
  the passes that start locked (line 127) with the timer expired (line 129).
\<close>

fun updates :: "controller \<Rightarrow> sample list \<Rightarrow> nat" where
  "updates s [] = 0"
| "updates s (i # is) =
     (if \<not> systemReady s \<and> scast fadeDelay \<le> millis_first i - prevFadeMillis s
      then 1 else 0) + updates (loop i s) is"

subsection \<open>The specification's readings, for comparison\<close>


text \<open>
  The reflecting triangle wave of section 4.2: the brightness after \<open>k\<close> animation
  updates rises from 0 to 50 in steps of 2 and falls back to 0, with period 50; the step
  after \<open>k\<close> updates is +2 on the rising half and -2 on the falling half.
\<close>

definition triangle :: "nat \<Rightarrow> int" where
  "triangle k = (if k mod 50 \<le> 25 then 2 * int (k mod 50) else 100 - 2 * int (k mod 50))"

definition slope :: "nat \<Rightarrow> int" where
  "slope k = (if k mod 50 < 25 then 2 else - 2)"

subsection \<open>The scenario of section 8 of the specification\<close>

text \<open>
  Two passes of the scenario, as inputs: the potentiometer at 10 with the button pressed,
  20 ms after start; and the potentiometer at 1023 with the button released, at 200 ms.
  \<open>armed_state\<close> is the state after \<open>setup\<close> and the first of them.
\<close>

definition pass_zero_pressed :: sample where
  "pass_zero_pressed =
     \<lparr>pot_speed = 10, button_pin = LOW, millis_first = 20, millis_second = 20\<rparr>"

definition pass_full_speed :: sample where
  "pass_full_speed =
     \<lparr>pot_speed = 1023, button_pin = HIGH, millis_first = 200, millis_second = 200\<rparr>"

definition armed_state :: controller where
  "armed_state = loop pass_zero_pressed setup_state"

section \<open>Properties\<close>

subsection \<open>The arm state across the parts of \<open>loop\<close>\<close>

lemma systemReady_breathe [simp]: "systemReady (breathe i s) = systemReady s"
  by (simp add: breathe_def Let_def)

lemma systemReady_all_off [simp]: "systemReady (all_off s) = systemReady s"
  by (simp add: all_off_def)

lemma systemReady_arm_check:
  "systemReady (arm_check p b s) \<longleftrightarrow>
     systemReady s \<or> (sint p < sint potZeroThreshold \<and> b = LOW)"
  by (simp add: arm_check_def Let_def word_sless_alt)

lemma systemReady_unlocked [simp]: "systemReady (unlocked pwm s) = systemReady s"
  by (simp add: unlocked_def heater_control_def)

lemma loop_locked:
  "\<not> systemReady s \<Longrightarrow>
     loop i s = all_off (arm_check (pot_speed i) (button_pin i) (breathe i s))"
  by (simp add: loop_def)

lemma loop_armed: "systemReady s \<Longrightarrow> loop i s = unlocked (motorPWM (pot_speed i)) s"
  by (simp add: loop_def)

lemma systemReady_loop:
  "systemReady (loop i s) \<longleftrightarrow>
     systemReady s \<or> (sint (pot_speed i) < sint potZeroThreshold \<and> button_pin i = LOW)"
  by (cases "systemReady s") (simp_all add: loop_locked loop_armed systemReady_arm_check)

lemma run_armed: "systemReady s \<Longrightarrow> systemReady (run s js)"
  by (induction js arbitrary: s) (simp_all add: systemReady_loop)

lemma run_locked:
  "\<not> systemReady s \<Longrightarrow> \<forall>j\<in>set js. sint potZeroThreshold \<le> sint (pot_speed j) \<Longrightarrow>
     \<not> systemReady (run s js)"
  by (induction js arbitrary: s) (simp_all add: systemReady_loop)

subsection \<open>Interlock and arming\<close>

lemma run_snoc: "run s (js @ [j]) = loop j (run s js)"
  by (induction js arbitrary: s) simp_all

text \<open>A locked state that a run from \<open>setup\<close> reaches has every actuator off.\<close>

lemma locked_reachable_off:
  assumes "\<not> systemReady (run setup_state js)"
  shows "MOTOR_ENB (run setup_state js) = 0 \<and> MOTOR_IN3 (run setup_state js) = LOW \<and>
         MOTOR_IN4 (run setup_state js) = LOW \<and> RELAY_PIN (run setup_state js) = LOW \<and>
         HEATER_LED (run setup_state js) = LOW"
proof (cases js rule: rev_cases)
  case Nil
  then show ?thesis
    by (simp add: setup_state_def)
next
  case (snoc js' j)
  then have r: "run setup_state js = loop j (run setup_state js')"
    by (simp add: run_snoc)
  with assms have "\<not> systemReady (run setup_state js')"
    by (simp add: systemReady_loop)
  then show ?thesis
    unfolding r by (simp add: loop_locked all_off_def)
qed

text \<open>
  Claim C1, interlock soundness. A pass of \<open>loop\<close> that starts with the system locked
  ends with the motor duty 0, both motor direction lines low, the heater relay off and the
  heater indicator off, whatever the potentiometer and the button read. This holds on the
  pass that arms the system as well, so the exception the claim allows is never taken.
  Hence every locked state that a run from \<open>setup\<close> reaches has these five outputs off.
\<close>

theorem interlock_soundness:
  "\<not> systemReady s \<Longrightarrow>
     MOTOR_ENB (loop i s) = 0 \<and> MOTOR_IN3 (loop i s) = LOW \<and> MOTOR_IN4 (loop i s) = LOW \<and>
     RELAY_PIN (loop i s) = LOW \<and> HEATER_LED (loop i s) = LOW \<and>
     (\<not> systemReady (run setup_state js) \<longrightarrow>
        MOTOR_ENB (run setup_state js) = 0 \<and> MOTOR_IN3 (run setup_state js) = LOW \<and>
        MOTOR_IN4 (run setup_state js) = LOW \<and> RELAY_PIN (run setup_state js) = LOW \<and>
        HEATER_LED (run setup_state js) = LOW)"
  using locked_reachable_off [of js] by (simp add: loop_locked all_off_def)

theorem interlock_soundness_witness:
  "\<not> systemReady setup_state \<and>
   outputs (loop \<lparr>pot_speed = 500, button_pin = LOW, millis_first = 100,
                  millis_second = 100\<rparr> setup_state) =
     (2, LOW, LOW, 0, LOW, LOW, ''Set pot to zero  '') \<and>
   MOTOR_ENB (loop pass_zero_pressed setup_state) = 0 \<and>
   MOTOR_IN3 (loop pass_zero_pressed setup_state) = LOW \<and>
   MOTOR_IN4 (loop pass_zero_pressed setup_state) = LOW \<and>
   RELAY_PIN (loop pass_zero_pressed setup_state) = LOW \<and>
   HEATER_LED (loop pass_zero_pressed setup_state) = LOW \<and>
   \<not> systemReady (run setup_state [pass_full_speed, pass_full_speed]) \<and>
   MOTOR_ENB (run setup_state [pass_full_speed, pass_full_speed]) = 0 \<and>
   MOTOR_IN3 (run setup_state [pass_full_speed, pass_full_speed]) = LOW \<and>
   MOTOR_IN4 (run setup_state [pass_full_speed, pass_full_speed]) = LOW \<and>
   RELAY_PIN (run setup_state [pass_full_speed, pass_full_speed]) = LOW \<and>
   HEATER_LED (run setup_state [pass_full_speed, pass_full_speed]) = LOW"
proof -
  have h: "\<not> systemReady setup_state"
    by (simp add: setup_state_def)
  have n: "\<not> systemReady (run setup_state [pass_full_speed, pass_full_speed])"
    using h by (simp add: systemReady_loop pass_full_speed_def potZeroThreshold_def)
  have o: "outputs (loop \<lparr>pot_speed = 500, button_pin = LOW, millis_first = 100,
                  millis_second = 100\<rparr> setup_state) =
     (2, LOW, LOW, 0, LOW, LOW, ''Set pot to zero  '')"
    by (simp add: outputs_def loop_def setup_state_def all_off_def arm_check_def breathe_def
        potZeroThreshold_def fadeDelay_def maxBreathBrightness_def)
  show ?thesis
    using h n o
      interlock_soundness [OF h, of pass_zero_pressed "[pass_full_speed, pass_full_speed]"]
    by simp
qed

text \<open>
  Claim C2, arm-condition exactness. A pass that starts locked ends armed if and only if
  on that pass the potentiometer reads strictly below \<open>potZeroThreshold\<close> and the button
  reads \<open>LOW\<close> (pressed). Over any number of passes on which the potentiometer is not
  below the threshold the system stays locked, whatever the button reads.
\<close>

theorem arm_condition_exact:
  "\<not> systemReady s \<Longrightarrow>
     (systemReady (loop i s) \<longleftrightarrow>
        sint (pot_speed i) < sint potZeroThreshold \<and> button_pin i = LOW) \<and>
     ((\<forall>j\<in>set js. sint potZeroThreshold \<le> sint (pot_speed j)) \<longrightarrow>
        \<not> systemReady (run s js))"
  by (simp add: systemReady_loop run_locked)

theorem arm_condition_exact_witness:
  "\<not> systemReady setup_state \<and>
   systemReady (loop \<lparr>pot_speed = 5, button_pin = LOW, millis_first = 20,
                      millis_second = 20\<rparr> setup_state) \<and>
   \<not> systemReady (run setup_state
      [\<lparr>pot_speed = 50, button_pin = LOW, millis_first = 20, millis_second = 20\<rparr>,
       \<lparr>pot_speed = 20, button_pin = LOW, millis_first = 40, millis_second = 40\<rparr>])"
proof -
  have h: "\<not> systemReady setup_state"
    by (simp add: setup_state_def)
  show ?thesis
    using h arm_condition_exact [OF h,
      of "\<lparr>pot_speed = 5, button_pin = LOW, millis_first = 20, millis_second = 20\<rparr>"
         "[\<lparr>pot_speed = 50, button_pin = LOW, millis_first = 20, millis_second = 20\<rparr>,
           \<lparr>pot_speed = 20, button_pin = LOW, millis_first = 40, millis_second = 40\<rparr>]"]
    by (simp add: potZeroThreshold_def)
qed

text \<open>
  Claim C4, no disarm. A pass that starts armed ends armed, and so does any run of
  passes, whatever the potentiometer and the button read.
\<close>

theorem no_disarm:
  "systemReady s \<Longrightarrow> systemReady (loop i s) \<and> systemReady (run s js)"
  by (simp add: systemReady_loop run_armed)

theorem no_disarm_witness:
  "systemReady (loop \<lparr>pot_speed = 5, button_pin = LOW, millis_first = 20,
                      millis_second = 20\<rparr> setup_state) \<and>
   systemReady (loop \<lparr>pot_speed = 1023, button_pin = HIGH, millis_first = 40,
                      millis_second = 40\<rparr>
                 (loop \<lparr>pot_speed = 5, button_pin = LOW, millis_first = 20,
                        millis_second = 20\<rparr> setup_state)) \<and>
   systemReady (run (loop \<lparr>pot_speed = 5, button_pin = LOW, millis_first = 20,
                           millis_second = 20\<rparr> setup_state)
                 [\<lparr>pot_speed = 1023, button_pin = HIGH, millis_first = 40,
                   millis_second = 40\<rparr>,
                  \<lparr>pot_speed = 0, button_pin = LOW, millis_first = 60,
                   millis_second = 60\<rparr>])"
proof -
  have h: "systemReady (loop \<lparr>pot_speed = 5, button_pin = LOW, millis_first = 20,
                            millis_second = 20\<rparr> setup_state)"
    by (simp add: systemReady_loop potZeroThreshold_def)
  show ?thesis
    using h no_disarm [OF h,
      of "\<lparr>pot_speed = 1023, button_pin = HIGH, millis_first = 40, millis_second = 40\<rparr>"
         "[\<lparr>pot_speed = 1023, button_pin = HIGH, millis_first = 40, millis_second = 40\<rparr>,
           \<lparr>pot_speed = 0, button_pin = LOW, millis_first = 60, millis_second = 60\<rparr>]"]
    by simp
qed

subsection \<open>The unlocked branch\<close>

lemma heater_control_pins:
  "RELAY_PIN (heater_control room target s) = (if room < target then HIGH else LOW)"
  "HEATER_LED (heater_control room target s) = (if room < target then HIGH else LOW)"
  by (simp_all add: heater_control_def)

lemma heater_control_frame:
  "systemReady (heater_control room target s) = systemReady s"
  "fadeValue (heater_control room target s) = fadeValue s"
  "fadeAmount (heater_control room target s) = fadeAmount s"
  "prevFadeMillis (heater_control room target s) = prevFadeMillis s"
  "LED_READY (heater_control room target s) = LED_READY s"
  "MOTOR_ENB (heater_control room target s) = MOTOR_ENB s"
  "MOTOR_IN3 (heater_control room target s) = MOTOR_IN3 s"
  "MOTOR_IN4 (heater_control room target s) = MOTOR_IN4 s"
  "lcd_row1 (heater_control room target s) = lcd_row1 s"
  by (simp_all add: heater_control_def)

lemma heater_control_idem:
  "heater_control room target (heater_control room target s) = heater_control room target s"
  by (simp add: heater_control_def)

lemma outputs_unlocked:
  "outputs (unlocked pwm s) =
     (maxBreathBrightness, LOW, LOW, pwm, HIGH, LOW, ''System Active    '')"
  by (simp add: outputs_def unlocked_def heater_control_def roomTempMock_def targetTemp_def)

lemma run_armed_frame:
  "systemReady s \<Longrightarrow>
     fadeValue (run s js) = fadeValue s \<and> fadeAmount (run s js) = fadeAmount s \<and>
     prevFadeMillis (run s js) = prevFadeMillis s"
proof (induction js arbitrary: s)
  case Nil
  then show ?case by simp
next
  case (Cons j js)
  have "systemReady (loop j s)"
    using Cons.prems by (simp add: systemReady_loop)
  from Cons.IH [OF this] show ?case
    using Cons.prems by (simp add: loop_armed unlocked_def heater_control_frame)
qed

lemma armed_state_fields:
  "systemReady armed_state" "fadeValue armed_state = 0" "fadeAmount armed_state = 2"
  "prevFadeMillis armed_state = 0"
  by (simp_all add: armed_state_def pass_zero_pressed_def setup_state_def loop_def
      all_off_def arm_check_def breathe_def potZeroThreshold_def fadeDelay_def)

lemma motorPWM_1023: "motorPWM 1023 = 255"
  by (simp add: motorPWM_def map_long_def long_div_def)

text \<open>
  Claim C7, heater decision. On a pass that starts armed the relay and the heater
  indicator are both \<open>HIGH\<close> if and only if \<open>roomTempMock < targetTemp\<close> and both
  \<open>LOW\<close> otherwise; with the constants 27.0 and 20.0 both are \<open>LOW\<close>; a second pass
  with the same input leaves them as they are. The comparison itself, for any two
  temperatures, switches both lines together and is idempotent.
\<close>

theorem heater_decision:
  "systemReady s \<Longrightarrow>
     (RELAY_PIN (loop i s) = HIGH \<longleftrightarrow> roomTempMock < targetTemp) \<and>
     (HEATER_LED (loop i s) = HIGH \<longleftrightarrow> roomTempMock < targetTemp) \<and>
     (RELAY_PIN (loop i s) = LOW \<longleftrightarrow> \<not> roomTempMock < targetTemp) \<and>
     (HEATER_LED (loop i s) = LOW \<longleftrightarrow> \<not> roomTempMock < targetTemp) \<and>
     RELAY_PIN (loop i s) = LOW \<and> HEATER_LED (loop i s) = LOW \<and>
     RELAY_PIN (loop i (loop i s)) = RELAY_PIN (loop i s) \<and>
     HEATER_LED (loop i (loop i s)) = HEATER_LED (loop i s) \<and>
     RELAY_PIN (heater_control room target s) = (if room < target then HIGH else LOW) \<and>
     HEATER_LED (heater_control room target s) = (if room < target then HIGH else LOW) \<and>
     heater_control room target (heater_control room target s) = heater_control room target s"
proof -
  assume a: "systemReady s"
  then have b: "systemReady (loop i s)"
    by (simp add: systemReady_loop)
  have c: "\<not> roomTempMock < targetTemp"
    by (simp add: roomTempMock_def targetTemp_def)
  have 1: "RELAY_PIN (loop i s) = LOW \<and> HEATER_LED (loop i s) = LOW"
    using c by (simp add: loop_armed [OF a] unlocked_def heater_control_pins)
  have 2: "RELAY_PIN (loop i (loop i s)) = LOW \<and> HEATER_LED (loop i (loop i s)) = LOW"
    using c by (simp add: loop_armed [OF b] unlocked_def heater_control_pins)
  show ?thesis
    using c 1 2 by (simp add: heater_control_pins heater_control_idem)
qed

theorem heater_decision_witness:
  "systemReady armed_state \<and>
   RELAY_PIN (loop pass_full_speed armed_state) = LOW \<and>
   HEATER_LED (loop pass_full_speed armed_state) = LOW \<and>
   RELAY_PIN (heater_control 18 20 armed_state) = HIGH \<and>
   HEATER_LED (heater_control 18 20 armed_state) = HIGH"
  using armed_state_fields(1)
    heater_decision [OF armed_state_fields(1), of pass_full_speed 18 20]
  by simp

text \<open>
  Claim C10, armed passes change no variable. A pass that starts armed leaves
  \<open>systemReady\<close> true and \<open>fadeValue\<close>, \<open>fadeAmount\<close> and \<open>prevFadeMillis\<close> as they
  were, and so does any run of passes; it writes every output, to values that depend on
  the potentiometer reading of that pass alone, so two armed passes with the same reading
  end with the same outputs whatever the states they start from.
\<close>

theorem armed_pass_frame:
  "systemReady s \<Longrightarrow>
     systemReady (loop i s) \<and> fadeValue (loop i s) = fadeValue s \<and>
     fadeAmount (loop i s) = fadeAmount s \<and> prevFadeMillis (loop i s) = prevFadeMillis s \<and>
     outputs (loop i s) =
       (maxBreathBrightness, LOW, LOW, motorPWM (pot_speed i), HIGH, LOW,
        ''System Active    '') \<and>
     (systemReady t \<and> pot_speed j = pot_speed i \<longrightarrow>
        outputs (loop j t) = outputs (loop i s)) \<and>
     fadeValue (run s js) = fadeValue s \<and> fadeAmount (run s js) = fadeAmount s \<and>
     prevFadeMillis (run s js) = prevFadeMillis s"
  by (simp add: loop_armed outputs_unlocked run_armed_frame)
    (simp add: unlocked_def heater_control_frame)

theorem armed_pass_frame_witness:
  "systemReady armed_state \<and>
   systemReady (loop pass_full_speed armed_state) \<and>
   fadeValue (loop pass_full_speed armed_state) = 0 \<and>
   fadeAmount (loop pass_full_speed armed_state) = 2 \<and>
   prevFadeMillis (loop pass_full_speed armed_state) = 0 \<and>
   outputs (loop pass_full_speed armed_state) =
     (50, LOW, LOW, 255, HIGH, LOW, ''System Active    '') \<and>
   pot_speed (pass_full_speed\<lparr>button_pin := LOW\<rparr>) = pot_speed pass_full_speed \<and>
   outputs (loop (pass_full_speed\<lparr>button_pin := LOW\<rparr>)
             (loop pass_full_speed armed_state)) =
     outputs (loop pass_full_speed armed_state) \<and>
   fadeValue (run armed_state [pass_full_speed, pass_zero_pressed]) = 0 \<and>
   fadeAmount (run armed_state [pass_full_speed, pass_zero_pressed]) = 2 \<and>
   prevFadeMillis (run armed_state [pass_full_speed, pass_zero_pressed]) = 0"
  using armed_state_fields
    armed_pass_frame [OF armed_state_fields(1), of pass_full_speed
      "loop pass_full_speed armed_state" "pass_full_speed\<lparr>button_pin := LOW\<rparr>"
      "[pass_full_speed, pass_zero_pressed]"]
  by (simp add: maxBreathBrightness_def motorPWM_1023 pass_full_speed_def)

subsection \<open>The pass that arms\<close>

text \<open>
  Claim C3, as the code has it. On the pass on which the system goes from locked to
  armed, lines 152 to 157 still run after the arm check: the pass ends with the motor
  duty 0, both direction lines low, the relay and the heater indicator off; of the
  outputs only the status LED (at \<open>maxBreathBrightness\<close>) and the display line change.
  The outputs of the unlocked branch appear on the next pass: duty \<open>motorPWM\<close> of that
  pass's reading, direction forward, heater by the temperature comparison.
\<close>

theorem transition_pass_forced_off:
  "\<not> systemReady s \<Longrightarrow> systemReady (loop i s) \<Longrightarrow>
     MOTOR_ENB (loop i s) = 0 \<and> MOTOR_IN3 (loop i s) = LOW \<and> MOTOR_IN4 (loop i s) = LOW \<and>
     RELAY_PIN (loop i s) = LOW \<and> HEATER_LED (loop i s) = LOW \<and>
     LED_READY (loop i s) = maxBreathBrightness \<and>
     lcd_row1 (loop i s) = ''System Active    '' \<and>
     MOTOR_ENB (loop j (loop i s)) = motorPWM (pot_speed j) \<and>
     MOTOR_IN3 (loop j (loop i s)) = HIGH \<and> MOTOR_IN4 (loop j (loop i s)) = LOW \<and>
     RELAY_PIN (loop j (loop i s)) = (if roomTempMock < targetTemp then HIGH else LOW) \<and>
     HEATER_LED (loop j (loop i s)) = (if roomTempMock < targetTemp then HIGH else LOW)"
proof -
  assume l: "\<not> systemReady s" and a: "systemReady (loop i s)"
  from l a have c: "pot_speed i <s potZeroThreshold" "button_pin i = LOW"
    by (simp_all add: systemReady_loop word_sless_alt)
  have 1: "loop i s = all_off (arm_check (pot_speed i) (button_pin i) (breathe i s))"
    using l by (rule loop_locked)
  have 2: "loop j (loop i s) = unlocked (motorPWM (pot_speed j)) (loop i s)"
    using a by (rule loop_armed)
  have "MOTOR_ENB (loop i s) = 0 \<and> MOTOR_IN3 (loop i s) = LOW \<and>
     MOTOR_IN4 (loop i s) = LOW \<and> RELAY_PIN (loop i s) = LOW \<and>
     HEATER_LED (loop i s) = LOW \<and> LED_READY (loop i s) = maxBreathBrightness \<and>
     lcd_row1 (loop i s) = ''System Active    ''"
    unfolding 1 using c by (simp add: all_off_def arm_check_def)
  moreover have "MOTOR_ENB (loop j (loop i s)) = motorPWM (pot_speed j) \<and>
     MOTOR_IN3 (loop j (loop i s)) = HIGH \<and> MOTOR_IN4 (loop j (loop i s)) = LOW \<and>
     RELAY_PIN (loop j (loop i s)) = (if roomTempMock < targetTemp then HIGH else LOW) \<and>
     HEATER_LED (loop j (loop i s)) = (if roomTempMock < targetTemp then HIGH else LOW)"
    unfolding 2 by (simp add: unlocked_def heater_control_def)
  ultimately show ?thesis by simp
qed

theorem transition_pass_forced_off_witness:
  "\<not> systemReady setup_state \<and> systemReady (loop pass_zero_pressed setup_state) \<and>
   MOTOR_ENB (loop pass_zero_pressed setup_state) = 0 \<and>
   MOTOR_IN3 (loop pass_zero_pressed setup_state) = LOW \<and>
   MOTOR_IN4 (loop pass_zero_pressed setup_state) = LOW \<and>
   RELAY_PIN (loop pass_zero_pressed setup_state) = LOW \<and>
   HEATER_LED (loop pass_zero_pressed setup_state) = LOW \<and>
   LED_READY (loop pass_zero_pressed setup_state) = 50 \<and>
   MOTOR_ENB (loop pass_full_speed (loop pass_zero_pressed setup_state)) = 255 \<and>
   MOTOR_IN3 (loop pass_full_speed (loop pass_zero_pressed setup_state)) = HIGH \<and>
   MOTOR_IN4 (loop pass_full_speed (loop pass_zero_pressed setup_state)) = LOW \<and>
   RELAY_PIN (loop pass_full_speed (loop pass_zero_pressed setup_state)) = LOW \<and>
   HEATER_LED (loop pass_full_speed (loop pass_zero_pressed setup_state)) = LOW"
proof -
  have l: "\<not> systemReady setup_state"
    by (simp add: setup_state_def)
  have a: "systemReady (loop pass_zero_pressed setup_state)"
    using armed_state_fields(1) by (simp add: armed_state_def)
  show ?thesis
    using l a transition_pass_forced_off [OF l a, of pass_full_speed]
    by (simp add: maxBreathBrightness_def motorPWM_1023 pass_full_speed_def
        roomTempMock_def targetTemp_def)
qed

text \<open>
  The claim as the specification states it fails on the first arming pass after
  \<open>setup\<close>: the pass ends armed, and the forward direction line is low, not high.
\<close>

theorem transition_pass_counterexample:
  "\<not> (\<not> systemReady setup_state \<and>
       systemReady (loop \<lparr>pot_speed = 10, button_pin = LOW, millis_first = 20,
                          millis_second = 20\<rparr> setup_state) \<longrightarrow>
       MOTOR_IN3 (loop \<lparr>pot_speed = 10, button_pin = LOW, millis_first = 20,
                        millis_second = 20\<rparr> setup_state) = HIGH)"
  by (simp add: setup_state_def systemReady_arm_check potZeroThreshold_def loop_locked
      all_off_def)

subsection \<open>The input sampler\<close>

lemma sint_scast_int16: "sint (scast (v::int16) :: long32) = sint v"
  by (simp add: sint_up_scast is_up)

lemma sint_int16_range: "- 32768 \<le> sint (v::int16) \<and> sint v \<le> 32767"
  using sint_range_size [of v] by (simp add: word_size)

lemma sint_long_small:
  "- 2147483648 \<le> k \<Longrightarrow> k < 2147483648 \<Longrightarrow> sint (word_of_int k :: long32) = k"
  by (simp add: sint_sbintrunc' signed_take_bit_int_eq_self)

lemma sint_int16_small:
  "- 32768 \<le> k \<Longrightarrow> k < 32768 \<Longrightarrow> sint (word_of_int k :: int16) = k"
  by (simp add: sint_sbintrunc' signed_take_bit_int_eq_self)

lemma sdiv_1023_nonneg: "0 \<le> k \<Longrightarrow> (k::int) sdiv 1023 = k div 1023"
  by (simp add: signed_divide_int_def sgn_if)

lemma abs_sdiv_1023: "\<bar>(k::int) sdiv 1023\<bar> = \<bar>k\<bar> div 1023"
  by (cases "k = 0") (simp_all add: signed_divide_int_def abs_mult abs_sgn_eq)

lemma sdiv_1023_bounds:
  assumes "\<bar>k::int\<bar> \<le> b"
  shows "\<bar>k sdiv 1023\<bar> \<le> b div 1023"
  unfolding abs_sdiv_1023 using assms by (rule zdiv_mono1) simp

text \<open>
  No product and no quotient of the two calls overflows, whatever the 16-bit reading:
  \<open>map\<close> returns the truncated quotient of the two integers.
\<close>

lemma sint_map_long:
  fixes v :: int16
  assumes "0 \<le> c" "c \<le> 1000"
  shows "sint (map_long (scast v) 0 1023 0 (word_of_int c)) = (sint v * c) sdiv 1023"
proof -
  have c: "sint (word_of_int c :: long32) = c"
    using assms by (intro sint_long_small) auto
  have a: "\<bar>sint v * c\<bar> \<le> 32768 * 1000"
    unfolding abs_mult using assms sint_int16_range [of v] by (intro mult_mono) auto
  then have b: "- 32768000 \<le> sint v * c" "sint v * c \<le> 32768000"
    by auto
  have p: "sint (scast v * (word_of_int c :: long32)) = sint v * c"
    using b by (simp add: sint_word_mult sint_scast_int16 c signed_take_bit_int_eq_self)
  have "\<bar>sint v * c sdiv 1023\<bar> \<le> 32768 * 1000 div 1023"
    using a by (rule sdiv_1023_bounds)
  then have q: "- 32768000 \<le> sint v * c sdiv 1023" "sint v * c sdiv 1023 \<le> 32768000"
    by auto
  show ?thesis
    using q by (simp add: map_long_def long_div_def p sint_long_small)
qed

lemma sint_rpmHundredths: "sint (rpmHundredths v) = (sint v * 300) sdiv 1023"
  using sint_map_long [of 300 v] by (simp add: rpmHundredths_def)

lemma sint_motorPWM: "sint (motorPWM v) = (sint v * 255) sdiv 1023"
proof -
  let ?m = "map_long (scast v) 0 1023 0 255"
  have m: "sint ?m = (sint v * 255) sdiv 1023"
    using sint_map_long [of 255 v] by simp
  have "\<bar>sint v * 255\<bar> \<le> 32768 * 255"
    unfolding abs_mult using sint_int16_range [of v] by (intro mult_mono) auto
  then have "\<bar>sint v * 255 sdiv 1023\<bar> \<le> 32768 * 255 div 1023"
    by (rule sdiv_1023_bounds)
  then have r: "- 32768 \<le> sint v * 255 sdiv 1023" "sint v * 255 sdiv 1023 < 32768"
    by auto
  have "?m = word_of_int (sint ?m)"
    by simp
  then have "motorPWM v = ucast (word_of_int ((sint v * 255) sdiv 1023) :: long32)"
    unfolding motorPWM_def m by simp
  also have "\<dots> = word_of_int ((sint v * 255) sdiv 1023)"
    by (simp add: ucast_down_wi is_down)
  finally show ?thesis
    using r by (simp add: sint_int16_small)
qed

lemma rescale_in_range:
  assumes "0 \<le> (x::int)" "x \<le> 1023" "0 \<le> c"
  shows "(x * c) sdiv 1023 = x * c div 1023" "0 \<le> x * c div 1023" "x * c div 1023 \<le> c"
proof -
  have n: "0 \<le> x * c"
    using assms by simp
  then show "(x * c) sdiv 1023 = x * c div 1023"
    by (rule sdiv_1023_nonneg)
  show "0 \<le> x * c div 1023"
    using n by (simp add: pos_imp_zdiv_nonneg_iff)
  have "x * c \<le> 1023 * c"
    using assms by (intro mult_right_mono) auto
  then have "x * c div 1023 \<le> 1023 * c div 1023"
    by (rule zdiv_mono1) simp
  then show "x * c div 1023 \<le> c"
    by simp
qed

lemma rescale_mono:
  assumes "0 \<le> (x::int)" "x \<le> y" "0 \<le> c"
  shows "(x * c) sdiv 1023 \<le> (y * c) sdiv 1023"
proof -
  have "x * c \<le> y * c"
    using assms by (intro mult_right_mono) auto
  then have "x * c div 1023 \<le> y * c div 1023"
    by (rule zdiv_mono1) simp
  then show ?thesis
    using assms by (simp add: sdiv_1023_nonneg)
qed




text \<open>
  Claim C5, as the code has it. For a reading in 0..1023 the duty lies in 0..255 and the
  target speed in 0..3. The reading is not clamped: for every 16-bit reading \<open>v\<close> the
  duty is \<open>v * 255\<close> divided by 1023 and the number of hundredths is \<open>v * 300\<close> divided
  by 1023, both truncated towards zero; at the reading 2000 they are 498 and 586.
\<close>

theorem sampler_ranges:
  "(0 \<le> sint v \<and> sint v \<le> 1023 \<longrightarrow>
      0 \<le> sint (motorPWM v) \<and> sint (motorPWM v) \<le> 255 \<and>
      0 \<le> sint (rpmHundredths v) \<and> sint (rpmHundredths v) \<le> 300 \<and>
      0 \<le> rpmTarget v \<and> rpmTarget v \<le> 3) \<and>
   sint (motorPWM v) = (sint v * 255) sdiv 1023 \<and>
   sint (rpmHundredths v) = (sint v * 300) sdiv 1023"
  using rescale_in_range [of "sint v" 255] rescale_in_range [of "sint v" 300]
  by (simp add: sint_motorPWM sint_rpmHundredths rpmTarget_def)

theorem sampler_ranges_witness:
  "0 \<le> sint (1023 :: int16) \<and> sint (1023 :: int16) \<le> 1023 \<and>
   sint (motorPWM 1023) = 255 \<and> sint (rpmHundredths 1023) = 300 \<and>
   0 \<le> rpmTarget 1023 \<and> rpmTarget 1023 \<le> 3 \<and>
   sint (motorPWM 2000) = 498 \<and> sint (rpmHundredths 2000) = 586"
  using sampler_ranges [of 1023] sampler_ranges [of 2000]
  by simp

text \<open>
  The claim as the specification states it fails at the reading 2000: the duty is 498,
  and the target speed is 586 hundredths divided by 100.0, above 3.
\<close>

theorem sampler_clamp_counterexample:
  "\<not> (sint (motorPWM 2000) \<le> 255 \<and> rpmTarget 2000 \<le> 3)"
  by (simp add: motorPWM_def rpmTarget_def rpmHundredths_def map_long_def long_div_def)

text \<open>
  Claim C9, monotonicity. For readings \<open>v1 < v2\<close> in 0..1023 the duty of \<open>v1\<close> is at
  most the duty of \<open>v2\<close>, and the target speed of \<open>v1\<close> is at most that of \<open>v2\<close>, both
  as the integer number of hundredths and as the real quotient.
\<close>

theorem sampler_monotone:
  "0 \<le> sint v1 \<Longrightarrow> sint v1 < sint v2 \<Longrightarrow> sint v2 \<le> 1023 \<Longrightarrow>
     sint (motorPWM v1) \<le> sint (motorPWM v2) \<and>
     sint (rpmHundredths v1) \<le> sint (rpmHundredths v2) \<and>
     rpmTarget v1 \<le> rpmTarget v2"
  using rescale_mono [of "sint v1" "sint v2" 255] rescale_mono [of "sint v1" "sint v2" 300]
  by (simp add: sint_motorPWM sint_rpmHundredths rpmTarget_def divide_right_mono)

theorem sampler_monotone_witness:
  "0 \<le> sint (100 :: int16) \<and> sint (100 :: int16) < sint (101 :: int16) \<and>
   sint (101 :: int16) \<le> 1023 \<and>
   sint (motorPWM 100) \<le> sint (motorPWM 101) \<and>
   sint (rpmHundredths 100) \<le> sint (rpmHundredths 101) \<and>
   rpmTarget 100 \<le> rpmTarget 101"
  using sampler_monotone [of 100 101] by simp

subsection \<open>The breathing animation\<close>

lemma mod_50_Suc: "Suc k mod 50 = (if k mod 50 = 49 then 0 else Suc (k mod 50))"
  by (simp add: mod_Suc)

lemma triangle_bounds: "0 \<le> triangle k \<and> triangle k \<le> 50"
proof -
  define p where "p = k mod 50"
  have "p < 50"
    by (simp add: p_def)
  then show ?thesis
    unfolding triangle_def p_def [symmetric] by auto
qed

lemma slope_cases: "slope k = 2 \<or> slope k = - 2"
  by (simp add: slope_def)

lemma triangle_Suc: "triangle (Suc k) = triangle k + slope k"
proof -
  define p where "p = k mod 50"
  have "p < 50"
    by (simp add: p_def)
  then show ?thesis
    unfolding triangle_def slope_def mod_50_Suc p_def [symmetric] by auto
qed

lemma slope_Suc:
  "slope (Suc k) =
     (if triangle (Suc k) \<le> 0 \<or> 50 \<le> triangle (Suc k) then - slope k else slope k)"
proof -
  define p where "p = k mod 50"
  have "p < 50"
    by (simp add: p_def)
  then show ?thesis
    unfolding triangle_def slope_def mod_50_Suc p_def [symmetric] by auto
qed

lemma triangle_turn:
  "(triangle k \<le> 0 \<or> 50 \<le> triangle k) = (triangle k = 0 \<or> triangle k = 50)"
  using triangle_bounds [of k] by auto

text \<open>One animation update moves the wave one step on; a pass without update leaves it.\<close>

lemma breathe_phase:
  assumes "sint (fadeValue s) = triangle k" "sint (fadeAmount s) = slope k"
  shows "sint (fadeValue (breathe i s)) =
           triangle (k + (if scast fadeDelay \<le> millis_first i - prevFadeMillis s
                          then 1 else 0)) \<and>
         sint (fadeAmount (breathe i s)) =
           slope (k + (if scast fadeDelay \<le> millis_first i - prevFadeMillis s
                       then 1 else 0))"
proof (cases "scast fadeDelay \<le> millis_first i - prevFadeMillis s")
  case False
  then show ?thesis
    using assms by (simp add: breathe_def)
next
  case True
  let ?v = "fadeValue s + fadeAmount s"
  have b: "0 \<le> triangle (Suc k)" "triangle (Suc k) \<le> 50"
    using triangle_bounds [of "Suc k"] by auto
  have "sint ?v = signed_take_bit 15 (triangle k + slope k)"
    by (simp add: sint_word_ariths assms)
  then have v: "sint ?v = triangle (Suc k)"
    using b by (simp add: triangle_Suc [symmetric] signed_take_bit_int_eq_self)
  have "sint (- fadeAmount s) = signed_take_bit 15 (- slope k)"
    by (simp add: sint_word_ariths assms)
  then have n: "sint (- fadeAmount s) = - slope k"
    using slope_cases [of k] by auto
  have t: "(?v \<le>s 0 \<or> maxBreathBrightness \<le>s ?v) =
           (triangle (Suc k) \<le> 0 \<or> 50 \<le> triangle (Suc k))"
    by (simp add: word_sle_eq v maxBreathBrightness_def)
  show ?thesis
    using True by (simp add: breathe_def Let_def t v n assms slope_Suc [of k])
qed

lemma fade_frame:
  "fadeValue (all_off s) = fadeValue s" "fadeAmount (all_off s) = fadeAmount s"
  "fadeValue (arm_check p b s) = fadeValue s" "fadeAmount (arm_check p b s) = fadeAmount s"
  "fadeValue (unlocked pwm s) = fadeValue s" "fadeAmount (unlocked pwm s) = fadeAmount s"
  by (simp_all add: all_off_def arm_check_def unlocked_def heater_control_def Let_def)

lemma LED_READY_parts:
  "LED_READY (all_off s) = LED_READY s"
  "LED_READY (arm_check p b s) =
     (if p <s potZeroThreshold \<and> b = LOW then maxBreathBrightness else LED_READY s)"
  "LED_READY (unlocked pwm s) = maxBreathBrightness"
  "LED_READY (breathe i s) =
     (if scast fadeDelay \<le> millis_first i - prevFadeMillis s then fadeValue (breathe i s)
      else LED_READY s)"
  by (simp_all add: all_off_def arm_check_def unlocked_def heater_control_def breathe_def
      Let_def)

lemma loop_phase:
  assumes "sint (fadeValue s) = triangle k" "sint (fadeAmount s) = slope k"
    and "0 \<le> sint (LED_READY s)" "sint (LED_READY s) \<le> 50"
  shows "sint (fadeValue (loop i s)) = triangle (k + updates s [i]) \<and>
         sint (fadeAmount (loop i s)) = slope (k + updates s [i]) \<and>
         0 \<le> sint (LED_READY (loop i s)) \<and> sint (LED_READY (loop i s)) \<le> 50"
proof (cases "systemReady s")
  case True
  then show ?thesis
    using assms by (simp add: loop_armed fade_frame LED_READY_parts maxBreathBrightness_def)
next
  case False
  let ?n = "if scast fadeDelay \<le> millis_first i - prevFadeMillis s then 1 else 0 :: nat"
  have u: "updates s [i] = ?n"
    using False by simp
  have p: "sint (fadeValue (breathe i s)) = triangle (k + ?n)"
    "sint (fadeAmount (breathe i s)) = slope (k + ?n)"
    using breathe_phase [OF assms(1,2), of i] by auto
  have "0 \<le> sint (fadeValue (breathe i s)) \<and> sint (fadeValue (breathe i s)) \<le> 50"
    unfolding p(1) by (rule triangle_bounds)
  then have "0 \<le> sint (LED_READY (breathe i s)) \<and> sint (LED_READY (breathe i s)) \<le> 50"
    using assms(3,4) by (simp add: LED_READY_parts(4))
  then have l: "0 \<le> sint (LED_READY (loop i s)) \<and> sint (LED_READY (loop i s)) \<le> 50"
    by (simp add: loop_locked [OF False] LED_READY_parts(1,2) maxBreathBrightness_def)
  show ?thesis
    unfolding u using p l by (simp add: loop_locked [OF False] fade_frame)
qed

lemma run_phase:
  assumes "sint (fadeValue s) = triangle k" "sint (fadeAmount s) = slope k"
    and "0 \<le> sint (LED_READY s)" "sint (LED_READY s) \<le> 50"
  shows "sint (fadeValue (run s js)) = triangle (k + updates s js) \<and>
         sint (fadeAmount (run s js)) = slope (k + updates s js) \<and>
         0 \<le> sint (LED_READY (run s js)) \<and> sint (LED_READY (run s js)) \<le> 50"
  using assms
proof (induction js arbitrary: s k)
  case Nil
  then show ?case by simp
next
  case (Cons j js)
  have u: "k + updates s (j # js) = (k + updates s [j]) + updates (loop j s) js"
    by simp
  from loop_phase [OF Cons.prems, of j]
  have "sint (fadeValue (run (loop j s) js)) =
            triangle (k + updates s [j] + updates (loop j s) js) \<and>
        sint (fadeAmount (run (loop j s) js)) =
            slope (k + updates s [j] + updates (loop j s) js) \<and>
        0 \<le> sint (LED_READY (run (loop j s) js)) \<and>
        sint (LED_READY (run (loop j s) js)) \<le> 50"
    by (intro Cons.IH) auto
  then show ?case
    unfolding u by simp
qed

lemma setup_phase:
  "sint (fadeValue setup_state) = triangle 0" "sint (fadeAmount setup_state) = slope 0"
  "0 \<le> sint (LED_READY setup_state)" "sint (LED_READY setup_state) \<le> 50"
  by (simp_all add: setup_state_def triangle_def slope_def)

text \<open>
  Claim C6, the breathing triangle wave. After any run of passes from \<open>setup\<close>, the
  brightness \<open>fadeValue\<close> is the value of the reflecting triangle wave at the number of
  animation updates performed so far, and \<open>fadeAmount\<close> is its step there; so the
  brightness, and the value written to the status LED, stay within 0 and
  \<open>maxBreathBrightness\<close>, bounds included. The wave starts at 0 with step +2, moves by
  its step at each update, and the step is negated exactly when the brightness has
  reached 0 or 50.
\<close>

theorem breathing_triangle_wave:
  "sint (fadeValue (run setup_state js)) = triangle (updates setup_state js) \<and>
   sint (fadeAmount (run setup_state js)) = slope (updates setup_state js) \<and>
   0 \<le> sint (fadeValue (run setup_state js)) \<and>
   sint (fadeValue (run setup_state js)) \<le> sint maxBreathBrightness \<and>
   0 \<le> sint (LED_READY (run setup_state js)) \<and>
   sint (LED_READY (run setup_state js)) \<le> sint maxBreathBrightness \<and>
   triangle 0 = 0 \<and> slope 0 = 2 \<and>
   triangle (Suc n) = triangle n + slope n \<and>
   slope (Suc n) =
     (if triangle (Suc n) = 0 \<or> triangle (Suc n) = 50 then - slope n else slope n) \<and>
   0 \<le> triangle n \<and> triangle n \<le> 50"
proof -
  have r: "sint (fadeValue (run setup_state js)) = triangle (updates setup_state js)"
    "sint (fadeAmount (run setup_state js)) = slope (updates setup_state js)"
    "0 \<le> sint (LED_READY (run setup_state js))"
    "sint (LED_READY (run setup_state js)) \<le> 50"
    using run_phase [OF setup_phase, of js] by auto
  have z: "triangle 0 = 0" "slope 0 = 2"
    by (simp_all add: triangle_def slope_def)
  have t: "slope (Suc n) =
     (if triangle (Suc n) = 0 \<or> triangle (Suc n) = 50 then - slope n else slope n)"
    using slope_Suc [of n] by (simp only: triangle_turn)
  show ?thesis
    using r z t triangle_bounds [of "updates setup_state js"] triangle_bounds [of n]
    by (simp add: maxBreathBrightness_def triangle_Suc)
qed

end
